theory Spec2Isabelle
  imports Complex_Main
begin

section \<open>JavaScript numbers and their comparisons\<close>

text \<open>
  A TypeScript \<^verbatim>\<open>number\<close> is an IEEE double: a finite value (a real number here; the two
  zeros compare equal and are one value), one of the two infinities, or NaN. The
  comparisons \<^verbatim>\<open>>=\<close> and \<^verbatim>\<open><\<close> are exact on doubles and false as soon as one side is NaN.
\<close>

datatype number = NaN | NegInfinity | Finite real | PosInfinity

fun ge :: "number \<Rightarrow> number \<Rightarrow> bool" where
  "ge NaN b = False"
| "ge a NaN = False"
| "ge PosInfinity b = True"
| "ge a NegInfinity = True"
| "ge NegInfinity b = False"
| "ge a PosInfinity = False"
| "ge (Finite x) (Finite y) = (y \<le> x)"

fun lt :: "number \<Rightarrow> number \<Rightarrow> bool" where
  "lt NaN b = False"
| "lt a NaN = False"
| "lt PosInfinity b = False"
| "lt a NegInfinity = False"
| "lt NegInfinity b = True"
| "lt a PosInfinity = True"
| "lt (Finite x) (Finite y) = (x < y)"

section \<open>Threshold classification: getRiskLevel\<close>

text \<open>
  \<^verbatim>\<open>
  const getRiskLevel = (value: number, thresholds: { warning: number; critical: number }) => {
    if (value >= thresholds.critical) return { level: 'critical', color: '#f44336' };
    if (value >= thresholds.warning) return { level: 'warning', color: '#ff9800' };
    return { level: 'normal', color: '#4caf50' };
  };
  \<close>
  The field the specification calls \<^verbatim>\<open>max\<close> is \<^verbatim>\<open>warning\<close> in the source.
\<close>

record thresholds =
  warning :: number
  critical :: number

record riskLevel =
  level :: string
  color :: string

definition getRiskLevel :: "number \<Rightarrow> thresholds \<Rightarrow> riskLevel" where
  "getRiskLevel v t =
     (if ge v (critical t) then \<lparr>level = ''critical'', color = ''#f44336''\<rparr>
      else if ge v (warning t) then \<lparr>level = ''warning'', color = ''#ff9800''\<rparr>
      else \<lparr>level = ''normal'', color = ''#4caf50''\<rparr>)"

datatype error = InvalidThresholdError | InvalidTransitionError | DuplicateAlertError

text \<open>
  The outcome of a call of \<^verbatim>\<open>getRiskLevel\<close>, with a thrown exception as \<open>Inl\<close>: the body has
  no \<^verbatim>\<open>throw\<close> and calls nothing, so every path is a \<^verbatim>\<open>return\<close>.
\<close>

definition classify :: "number \<Rightarrow> thresholds \<Rightarrow> error + riskLevel" where
  "classify v t = Inr (getRiskLevel v t)"

section \<open>The client's WebSocketService\<close>

text \<open>
  The class keeps \<^verbatim>\<open>socket\<close> (the current socket.io socket or null), \<^verbatim>\<open>clientId\<close> (set once by
  the constructor), \<^verbatim>\<open>reconnectAttempts\<close>, and the two settings \<^verbatim>\<open>maxReconnectAttempts = 5\<close> and
  \<^verbatim>\<open>reconnectDelay = 1000\<close>, which no method assigns: they are constants here.

  Every call of \<^verbatim>\<open>connect()\<close> creates a new socket object with \<^verbatim>\<open>io(...)\<close> and registers its
  handlers on it; the handlers of earlier sockets stay registered. The socket objects are
  therefore kept in a store, in creation order, and \<^verbatim>\<open>socket\<close> is an index into it. Of a
  socket the model keeps what the class reads: its \<^verbatim>\<open>connected\<close> flag (socket.io sets it before
  it emits \<^verbatim>\<open>connect\<close> and clears it before it emits \<^verbatim>\<open>disconnect\<close>), the client id of its
  query, and the reconnection options it was created with. socket.io's own reconnection of
  a socket is library code: the class sees it as later events of that socket only. What \<^verbatim>\<open>setTimeout\<close> has scheduled, what has been emitted on sockets and what has been
  logged are part of the state. The listener registry (\<^verbatim>\<open>on\<close>, \<^verbatim>\<open>off\<close>, \<^verbatim>\<open>emit\<close>) is used by
  \<^verbatim>\<open>handleMessage\<close> only and is left out.
\<close>

record sock =
  sock_connected :: bool
  sock_clientId :: string
  sock_reconnection :: bool
  sock_reconnectionAttempts :: nat
  sock_reconnectionDelay :: nat

datatype message =
    subscribe_alerts
  | subscribe_live_data "number option"
  | subscribe_predictions "number option"
  | get_live_data "number option"

datatype logline =
    LogConnected
  | LogDisconnected string
  | LogReconnecting nat nat
  | LogMaxAttemptsReached
  | LogConnectionError
  | LogSocketError

record service =
  sockets :: "sock list"
  socket :: "nat option"
  clientId :: string
  reconnectAttempts :: nat
  timers :: "nat list"
  emitted :: "(nat \<times> message) list"
  console :: "logline list"

definition maxReconnectAttempts :: nat where
  "maxReconnectAttempts = 5"

definition reconnectDelay :: nat where
  "reconnectDelay = 1000"

text \<open>The constructor, with the generated client id as a parameter.\<close>

definition new_service :: "string \<Rightarrow> service" where
  "new_service cid =
     \<lparr>sockets = [], socket = None, clientId = cid, reconnectAttempts = 0,
      timers = [], emitted = [], console = []\<rparr>"

text \<open>
  \<^verbatim>\<open>connect()\<close>:
  \<^verbatim>\<open>
  this.socket = io(WS_URL, {
    transports: ['websocket', 'polling'], auth: { token: token },
    query: { clientId: this.clientId }, timeout: 20000, forceNew: true,
    reconnection: true, reconnectionAttempts: 5, reconnectionDelay: 1000
  });
  \<close>
  then the registration of the handlers below on the new socket. The \<^verbatim>\<open>try\<close> block is taken
  to complete; the promise the call returns is not part of the state.
\<close>

definition connect :: "service \<Rightarrow> service" where
  "connect s =
     s\<lparr>sockets := sockets s @
         [\<lparr>sock_connected = False, sock_clientId = clientId s, sock_reconnection = True,
           sock_reconnectionAttempts = 5, sock_reconnectionDelay = 1000\<rparr>],
       socket := Some (length (sockets s))\<rparr>"

text \<open>
  \<^verbatim>\<open>
  private handleReconnect(): void {
    if (this.reconnectAttempts < this.maxReconnectAttempts) {
      this.reconnectAttempts++;
      console.log(`Attempting to reconnect... (${this.reconnectAttempts}/${this.maxReconnectAttempts})`);
      setTimeout(() => { this.connect().catch(console.error); },
                 this.reconnectDelay * this.reconnectAttempts);
    } else {
      console.error('Max reconnection attempts reached');
    }
  }
  \<close>
  A pending timer is its delay in milliseconds; its callback is \<^verbatim>\<open>connect()\<close>.
\<close>

definition handleReconnect :: "service \<Rightarrow> service" where
  "handleReconnect s =
     (if reconnectAttempts s < maxReconnectAttempts then
        s\<lparr>reconnectAttempts := reconnectAttempts s + 1,
          console := console s @ [LogReconnecting (reconnectAttempts s + 1) maxReconnectAttempts],
          timers := timers s @ [reconnectDelay * (reconnectAttempts s + 1)]\<rparr>
      else s\<lparr>console := console s @ [LogMaxAttemptsReached]\<rparr>)"

text \<open>
  The handler of \<^verbatim>\<open>connect\<close> on socket \<open>i\<close>:
  \<^verbatim>\<open>this.socket.on('connect', () => { console.log(...); this.reconnectAttempts = 0; resolve(); })\<close>.
  A socket that was never created emits nothing.
\<close>

definition on_connect :: "nat \<Rightarrow> service \<Rightarrow> service" where
  "on_connect i s =
     (if i < length (sockets s) then
        s\<lparr>sockets := (sockets s)[i := (sockets s ! i)\<lparr>sock_connected := True\<rparr>],
          console := console s @ [LogConnected],
          reconnectAttempts := 0\<rparr>
      else s)"

text \<open>
  The handler of \<^verbatim>\<open>disconnect\<close> on socket \<open>i\<close>:
  \<^verbatim>\<open>
  this.socket.on('disconnect', (reason) => {
    console.log('WebSocket disconnected:', reason);
    // Don't attempt reconnect if disconnected manually
    if (reason !== 'io client disconnect') { this.handleReconnect(); }
  });
  \<close>
\<close>

definition on_disconnect :: "nat \<Rightarrow> string \<Rightarrow> service \<Rightarrow> service" where
  "on_disconnect i reason s =
     (if i < length (sockets s) then
        let s1 = s\<lparr>sockets := (sockets s)[i := (sockets s ! i)\<lparr>sock_connected := False\<rparr>],
                   console := console s @ [LogDisconnected reason]\<rparr>
        in if reason \<noteq> ''io client disconnect'' then handleReconnect s1 else s1
      else s)"

text \<open>
  The handlers of \<^verbatim>\<open>connect_error\<close> and \<^verbatim>\<open>error\<close> on socket \<open>i\<close>:
  \<^verbatim>\<open>
  this.socket.on('connect_error', (error) => {
    console.warn('WebSocket connection error (...)', error.message);
    setTimeout(() => reject(error), 5000);
  });
  this.socket.on('error', (error) => { console.warn('WebSocket error:', error); });
  \<close>
  They log, and the first rejects the promise of its \<^verbatim>\<open>connect()\<close> call five seconds later;
  neither calls \<^verbatim>\<open>handleReconnect\<close>. The promises are not part of the state.
\<close>

definition on_connect_error :: "nat \<Rightarrow> service \<Rightarrow> service" where
  "on_connect_error i s =
     (if i < length (sockets s) then s\<lparr>console := console s @ [LogConnectionError]\<rparr> else s)"

definition on_error :: "nat \<Rightarrow> service \<Rightarrow> service" where
  "on_error i s =
     (if i < length (sockets s) then s\<lparr>console := console s @ [LogSocketError]\<rparr> else s)"

text \<open>The \<open>k\<close>-th pending timer elapses: it is removed and its callback calls \<^verbatim>\<open>connect()\<close>.\<close>

definition timer_fires :: "nat \<Rightarrow> service \<Rightarrow> service" where
  "timer_fires k s =
     (if k < length (timers s) then
        connect (s\<lparr>timers := take k (timers s) @ drop (Suc k) (timers s)\<rparr>)
      else s)"

text \<open>\<^verbatim>\<open>isConnected(): return this.socket?.connected || false\<close>.\<close>

definition isConnected :: "service \<Rightarrow> bool" where
  "isConnected s =
     (case socket s of
        None \<Rightarrow> False
      | Some i \<Rightarrow> i < length (sockets s) \<and> sock_connected (sockets s ! i))"

text \<open>
  \<^verbatim>\<open>disconnect(): if (this.socket) { this.socket.disconnect(); this.socket = null; }\<close>.
  socket.io's \<^verbatim>\<open>Socket.disconnect()\<close> emits \<^verbatim>\<open>disconnect\<close> with the reason
  \<^verbatim>\<open>'io client disconnect'\<close>, at once, when the socket is connected, and nothing otherwise.
\<close>

definition disconnect :: "service \<Rightarrow> service" where
  "disconnect s =
     (case socket s of
        None \<Rightarrow> s
      | Some i \<Rightarrow>
          (if isConnected s then on_disconnect i ''io client disconnect'' s else s)
            \<lparr>socket := None\<rparr>)"


text \<open>
  \<^verbatim>\<open>
  subscribeToAlerts(): void {
    if (this.socket?.connected) {
      this.socket.emit('message', JSON.stringify({ type: 'subscribe_alerts' }));
    }
  }
  \<close>
  and the same with \<^verbatim>\<open>subscribe_live_data\<close>, \<^verbatim>\<open>subscribe_predictions\<close> and \<^verbatim>\<open>get_live_data\<close>,
  which carry the optional site id.
\<close>

definition send :: "message \<Rightarrow> service \<Rightarrow> service" where
  "send m s =
     (case socket s of
        None \<Rightarrow> s
      | Some i \<Rightarrow> if isConnected s then s\<lparr>emitted := emitted s @ [(i, m)]\<rparr> else s)"

definition subscribeToAlerts :: "service \<Rightarrow> service" where
  "subscribeToAlerts s = send subscribe_alerts s"

definition subscribeToLiveData :: "number option \<Rightarrow> service \<Rightarrow> service" where
  "subscribeToLiveData siteId s = send (subscribe_live_data siteId) s"

definition subscribeToPredictions :: "number option \<Rightarrow> service \<Rightarrow> service" where
  "subscribeToPredictions siteId s = send (subscribe_predictions siteId) s"

definition requestLiveData :: "number option \<Rightarrow> service \<Rightarrow> service" where
  "requestLiveData siteId s = send (get_live_data siteId) s"

text \<open>
  What can happen to a service: the application calls a public method, socket.io emits an
  event on one of the sockets, or a timer elapses. A run is a sequence of such events.
\<close>

datatype event =
    CallConnect
  | CallDisconnect
  | CallSubscribeToAlerts
  | CallSubscribeToLiveData "number option"
  | CallSubscribeToPredictions "number option"
  | CallRequestLiveData "number option"
  | SocketConnects nat
  | SocketDisconnects nat string
  | SocketConnectError nat
  | SocketError nat
  | TimerFires nat

fun step :: "event \<Rightarrow> service \<Rightarrow> service" where
  "step CallConnect s = connect s"
| "step CallDisconnect s = disconnect s"
| "step CallSubscribeToAlerts s = subscribeToAlerts s"
| "step (CallSubscribeToLiveData x) s = subscribeToLiveData x s"
| "step (CallSubscribeToPredictions x) s = subscribeToPredictions x s"
| "step (CallRequestLiveData x) s = requestLiveData x s"
| "step (SocketConnects i) s = on_connect i s"
| "step (SocketDisconnects i reason) s = on_disconnect i reason s"
| "step (SocketConnectError i) s = on_connect_error i s"
| "step (SocketError i) s = on_error i s"
| "step (TimerFires k) s = timer_fires k s"

fun run :: "event list \<Rightarrow> service \<Rightarrow> service" where
  "run [] s = s"
| "run (e # es) s = run es (step e s)"

text \<open>The message a call asks to send, for the events that are calls of a sending method.\<close>

fun requested :: "event \<Rightarrow> message option" where
  "requested CallSubscribeToAlerts = Some subscribe_alerts"
| "requested (CallSubscribeToLiveData x) = Some (subscribe_live_data x)"
| "requested (CallSubscribeToPredictions x) = Some (subscribe_predictions x)"
| "requested (CallRequestLiveData x) = Some (get_live_data x)"
| "requested e = None"






text \<open>
  Every socket created so far carries the client id of the service in its query.
\<close>

definition same_client :: "service \<Rightarrow> bool" where
  "same_client s = list_all (\<lambda>k. sock_clientId k = clientId s) (sockets s)"

section \<open>The alert state machine\<close>

text \<open>
  Modelled from the spec: the AlertStateMachine (section 4.3) and its data (section 3) are
  server code of the repository that is not among the sources; the sources hold the alerts
  table and the client calls only. A status is the derived classification of a reading.
\<close>

datatype status = Normal | Warning | Critical | Offline

text \<open>
  Modelled from the spec: the severity buckets of an Alert, \<^verbatim>\<open>low|medium|high|critical\<close>.
\<close>

datatype severity = SevLow | SevMedium | SevHigh | SevCritical

text \<open>
  Modelled from the spec: the lifecycle status of an Alert; a (sensor, severity) pair with no open alert is Idle.
\<close>

datatype alert_status = Active | Acknowledged | Resolved

text \<open>
  Modelled from the spec: the Alert of section 3. \<open>timestamp\<close> is the time of the last report
  that updated it; times are natural numbers.
\<close>

record alert =
  alert_id :: nat
  sensor_id :: string
  site_id :: string
  severity :: severity
  title :: string
  message :: string
  created_at :: nat
  timestamp :: nat
  alert_status :: alert_status
  acknowledged_by :: "string option"
  acknowledged_at :: "nat option"
  resolved_at :: "nat option"

text \<open>
  Modelled from the spec: the state of the AlertStateMachine: every alert ever created
  (resolved ones stay as history), the next id, the number of consecutive \<^verbatim>\<open>normal\<close> reports of
  each sensor, the hysteresis window counted in confirmations (as in the end-to-end example
  of section 8), and the sensor-type policy that gives the severity of a \<^verbatim>\<open>warning\<close>.
\<close>

record machine =
  alerts :: "alert list"
  next_alert_id :: nat
  normal_streak :: "string \<Rightarrow> nat"
  hysteresis_window :: nat
  warning_policy :: "string \<Rightarrow> severity"

text \<open>
  Modelled from the spec: the machine with no alert.
\<close>

definition new_machine :: "nat \<Rightarrow> (string \<Rightarrow> severity) \<Rightarrow> machine" where
  "new_machine window policy =
     \<lparr>alerts = [], next_alert_id = 0, normal_streak = (\<lambda>sensor. 0),
      hysteresis_window = window, warning_policy = policy\<rparr>"

text \<open>
  Modelled from the spec: the order of the severities, for "the same or higher severity".
\<close>

fun rank :: "severity \<Rightarrow> nat" where
  "rank SevLow = 0"
| "rank SevMedium = 1"
| "rank SevHigh = 2"
| "rank SevCritical = 3"

text \<open>
  Modelled from the spec: "severity derived from status; critical to critical, warning to
  high/medium per sensor-type policy"; normal and offline open no alert.
\<close>

fun severity_of :: "(string \<Rightarrow> severity) \<Rightarrow> string \<Rightarrow> status \<Rightarrow> severity option" where
  "severity_of policy sensor Critical = Some SevCritical"
| "severity_of policy sensor Warning = Some (policy sensor)"
| "severity_of policy sensor Normal = None"
| "severity_of policy sensor Offline = None"

text \<open>
  Modelled from the spec: a non-Resolved alert.
\<close>

definition is_open :: "alert \<Rightarrow> bool" where
  "is_open a = (alert_status a \<noteq> Resolved)"

text \<open>
  Modelled from the spec: the non-Resolved alerts of a (sensor, severity bucket) pair.
\<close>

definition open_alerts :: "string \<Rightarrow> severity \<Rightarrow> machine \<Rightarrow> alert list" where
  "open_alerts sensor sev m =
     filter (\<lambda>a. is_open a \<and> sensor_id a = sensor \<and> severity a = sev) (alerts m)"

text \<open>
  Modelled from the spec: "creating a second is rejected, not silently dropped". The spec
  names no error for the rejection; it is \<open>DuplicateAlertError\<close> here.
\<close>

definition create_alert ::
  "string \<Rightarrow> string \<Rightarrow> severity \<Rightarrow> string \<Rightarrow> string \<Rightarrow> nat \<Rightarrow> machine \<Rightarrow> error + machine" where
  "create_alert sensor site sev ttl msg now m =
     (if open_alerts sensor sev m \<noteq> [] then Inl DuplicateAlertError
      else Inr (m\<lparr>alerts := alerts m @
                  [\<lparr>alert_id = next_alert_id m, sensor_id = sensor, site_id = site,
                    severity = sev, title = ttl, message = msg, created_at = now,
                    timestamp = now, alert_status = Active, acknowledged_by = None,
                    acknowledged_at = None, resolved_at = None\<rparr>],
                next_alert_id := Suc (next_alert_id m)\<rparr>))"

text \<open>
  Modelled from the spec: the update of one alert in place, the first that satisfies \<open>P\<close>.
\<close>

fun update_first :: "('a \<Rightarrow> bool) \<Rightarrow> ('a \<Rightarrow> 'a) \<Rightarrow> 'a list \<Rightarrow> 'a list" where
  "update_first P f [] = []"
| "update_first P f (a # as) = (if P a then f a # as else a # update_first P f as)"

text \<open>
  Modelled from the spec: a report "updates the Alert's message/timestamp fields".
\<close>

definition touch :: "string \<Rightarrow> nat \<Rightarrow> alert \<Rightarrow> alert" where
  "touch msg now a = a\<lparr>message := msg, timestamp := now\<rparr>"

text \<open>
  Modelled from the spec: a report of warning or critical. The idempotent-update path
  comes first: an open alert of the same severity is updated; failing that, an open alert
  of a lower severity is updated and escalated ("severity escalates to critical, same Alert
  updated, not duplicated"); failing that, Idle to Active creates a new alert.
\<close>

definition report_breach ::
  "string \<Rightarrow> string \<Rightarrow> severity \<Rightarrow> string \<Rightarrow> string \<Rightarrow> nat \<Rightarrow> machine \<Rightarrow> machine" where
  "report_breach sensor site sev ttl msg now m =
     (if open_alerts sensor sev m \<noteq> [] then
        m\<lparr>alerts := update_first
             (\<lambda>a. is_open a \<and> sensor_id a = sensor \<and> severity a = sev)
             (touch msg now) (alerts m)\<rparr>
      else if list_ex (\<lambda>a. is_open a \<and> sensor_id a = sensor \<and> rank (severity a) < rank sev)
                (alerts m) then
        m\<lparr>alerts := update_first
             (\<lambda>a. is_open a \<and> sensor_id a = sensor \<and> rank (severity a) < rank sev)
             (\<lambda>a. (touch msg now a)\<lparr>severity := sev\<rparr>) (alerts m)\<rparr>
      else
        (case create_alert sensor site sev ttl msg now m of
           Inl e \<Rightarrow> m
         | Inr m' \<Rightarrow> m'))"

text \<open>
  Modelled from the spec: auto-resolution of the open alerts of a sensor.
\<close>

definition resolve_sensor :: "string \<Rightarrow> nat \<Rightarrow> alert list \<Rightarrow> alert list" where
  "resolve_sensor sensor now as =
     map (\<lambda>a. if sensor_id a = sensor \<and> is_open a
               then a\<lparr>alert_status := Resolved, resolved_at := Some now\<rparr> else a) as"

text \<open>
  Modelled from the spec: a status report of a sensor. A warning or critical report ends
  the run of normal reports; a normal report extends it and resolves the open alerts of the
  sensor once the run fills the hysteresis window; an offline report ends the run.
\<close>

definition report ::
  "string \<Rightarrow> string \<Rightarrow> status \<Rightarrow> string \<Rightarrow> string \<Rightarrow> nat \<Rightarrow> machine \<Rightarrow> machine" where
  "report sensor site st ttl msg now m =
     (case severity_of (warning_policy m) sensor st of
        Some sev \<Rightarrow>
          report_breach sensor site sev ttl msg now
            (m\<lparr>normal_streak := (normal_streak m)(sensor := 0)\<rparr>)
      | None \<Rightarrow>
          if st = Normal then
            let k = Suc (normal_streak m sensor) in
            if hysteresis_window m \<le> k then
              m\<lparr>alerts := resolve_sensor sensor now (alerts m),
                normal_streak := (normal_streak m)(sensor := k)\<rparr>
            else m\<lparr>normal_streak := (normal_streak m)(sensor := k)\<rparr>
          else m\<lparr>normal_streak := (normal_streak m)(sensor := 0)\<rparr>)"

text \<open>
  Modelled from the spec: the update of the alert with a given id.
\<close>

definition set_alert :: "nat \<Rightarrow> (alert \<Rightarrow> alert) \<Rightarrow> machine \<Rightarrow> machine" where
  "set_alert i f m = m\<lparr>alerts := update_first (\<lambda>a. alert_id a = i) f (alerts m)\<rparr>"

text \<open>
  Modelled from the spec: \<^verbatim>\<open>acknowledge(alertId, userId)\<close> returns the updated Alert or fails
  with InvalidTransitionError. The only transition is Active to Acknowledged, so the
  acknowledgement of an alert that is already Acknowledged fails as well.
\<close>

definition acknowledge :: "nat \<Rightarrow> string \<Rightarrow> nat \<Rightarrow> machine \<Rightarrow> error + alert \<times> machine" where
  "acknowledge i user now m =
     (case find (\<lambda>a. alert_id a = i) (alerts m) of
        None \<Rightarrow> Inl InvalidTransitionError
      | Some a \<Rightarrow>
          if alert_status a = Active then
            let f = (\<lambda>a. a\<lparr>alert_status := Acknowledged, acknowledged_by := Some user,
                             acknowledged_at := Some now\<rparr>)
            in Inr (f a, set_alert i f m)
          else Inl InvalidTransitionError)"

text \<open>
  Modelled from the spec: \<^verbatim>\<open>resolve(alertId, userId)\<close>, allowed from Active and from
  Acknowledged, returns the updated Alert or fails with InvalidTransitionError.
\<close>

definition resolve :: "nat \<Rightarrow> string \<Rightarrow> nat \<Rightarrow> machine \<Rightarrow> error + alert \<times> machine" where
  "resolve i user now m =
     (case find (\<lambda>a. alert_id a = i) (alerts m) of
        None \<Rightarrow> Inl InvalidTransitionError
      | Some a \<Rightarrow>
          if alert_status a = Active \<or> alert_status a = Acknowledged then
            let f = (\<lambda>a. a\<lparr>alert_status := Resolved, resolved_at := Some now\<rparr>)
            in Inr (f a, set_alert i f m)
          else Inl InvalidTransitionError)"

text \<open>
  Modelled from the spec: the alert-creating and alert-mutating transitions.
\<close>

datatype transition =
    Report string string status string string nat
  | Create string string severity string string nat
  | Acknowledge nat string nat
  | Resolve nat string nat

text \<open>
  Modelled from the spec: one transition on the machine; a rejected one is reported to
  its caller and leaves the machine as it is.
\<close>

fun apply_transition :: "transition \<Rightarrow> machine \<Rightarrow> machine" where
  "apply_transition (Report sensor site st ttl msg now) m = report sensor site st ttl msg now m"
| "apply_transition (Create sensor site sev ttl msg now) m =
     (case create_alert sensor site sev ttl msg now m of Inl e \<Rightarrow> m | Inr m' \<Rightarrow> m')"
| "apply_transition (Acknowledge i user now) m =
     (case acknowledge i user now m of Inl e \<Rightarrow> m | Inr (a, m') \<Rightarrow> m')"
| "apply_transition (Resolve i user now) m =
     (case resolve i user now m of Inl e \<Rightarrow> m | Inr (a, m') \<Rightarrow> m')"

text \<open>
  Modelled from the spec: an interleaving of transitions, in the order in which they take effect.
\<close>

fun apply_transitions :: "transition list \<Rightarrow> machine \<Rightarrow> machine" where
  "apply_transitions [] m = m"
| "apply_transitions (t # ts) m = apply_transitions ts (apply_transition t m)"

text \<open>
  Modelled from the spec: the open alerts of a pair, in a list of alerts.
\<close>

definition opens :: "string \<times> severity \<Rightarrow> alert list \<Rightarrow> alert list" where
  "opens k as = filter (\<lambda>a. is_open a \<and> sensor_id a = fst k \<and> severity a = snd k) as"

text \<open>
  Modelled from the spec: the invariant of section 4.3.
\<close>

definition at_most_one_open :: "machine \<Rightarrow> bool" where
  "at_most_one_open m = (\<forall>sensor sev. length (open_alerts sensor sev m) \<le> 1)"

section \<open>The client's ApiService and the operator actions\<close>

text \<open>
  The requests of \<^verbatim>\<open>ApiService\<close> that act on an alert:
  \<^verbatim>\<open>PUT /api/alerts/alerts/${alertId}/acknowledge\<close> and \<^verbatim>\<open>.../resolve\<close>.
\<close>

datatype request = PutAcknowledge nat | PutResolve nat

text \<open>
  A rejected axios promise: \<^verbatim>\<open>error.response?.status\<close> and what the server reported.
\<close>

record failure =
  fail_status :: "nat option"
  fail_cause :: error

text \<open>
  An axios response, of which the methods return \<^verbatim>\<open>response.data\<close>.
\<close>

record 'd response =
  data :: 'd

text \<open>
  What the client touches: the \<^verbatim>\<open>access_token\<close> of localStorage, \<^verbatim>\<open>window.location.href\<close>,
  and the requests sent so far.
\<close>

record api =
  access_token :: "string option"
  location :: string
  requests :: "request list"

text \<open>
  \<^verbatim>\<open>
  this.client.interceptors.response.use(
    (response) => response,
    (error) => {
      if (error.response?.status === 401) {
        localStorage.removeItem('access_token');
        window.location.href = '/login';
      }
      return Promise.reject(error);
    });
  \<close>
\<close>

definition response_interceptor :: "failure + 'd response \<Rightarrow> api \<Rightarrow> (failure + 'd response) \<times> api" where
  "response_interceptor outcome st =
     (case outcome of
        Inr r \<Rightarrow> (Inr r, st)
      | Inl e \<Rightarrow>
          (Inl e, if fail_status e = Some 401
                  then st\<lparr>access_token := None, location := ''/login''\<rparr> else st))"

text \<open>
  \<^verbatim>\<open>this.client.put(url)\<close>: one request to the server, a parameter here, and the response
  interceptor on its outcome. (The request interceptor only adds the Authorization header.)
\<close>

definition client_put ::
  "(request \<Rightarrow> failure + 'd response) \<Rightarrow> request \<Rightarrow> api \<Rightarrow> (failure + 'd response) \<times> api" where
  "client_put server req st =
     response_interceptor (server req) (st\<lparr>requests := requests st @ [req]\<rparr>)"

text \<open>
  \<^verbatim>\<open>
  async acknowledgeAlert(alertId: number) {
    const response = await this.client.put(`/api/alerts/alerts/${alertId}/acknowledge`);
    return response.data;
  }
  \<close>
  A rejected promise is a thrown error at \<^verbatim>\<open>await\<close>; nothing catches it.
\<close>

definition acknowledgeAlert ::
  "(request \<Rightarrow> failure + 'd response) \<Rightarrow> nat \<Rightarrow> api \<Rightarrow> (failure + 'd) \<times> api" where
  "acknowledgeAlert server alertId st =
     (case client_put server (PutAcknowledge alertId) st of
        (Inl e, st') \<Rightarrow> (Inl e, st')
      | (Inr r, st') \<Rightarrow> (Inr (data r), st'))"

text \<open>
  \<^verbatim>\<open>
  async resolveAlert(alertId: number) {
    const response = await this.client.put(`/api/alerts/alerts/${alertId}/resolve`);
    return response.data;
  }
  \<close>
\<close>

definition resolveAlert ::
  "(request \<Rightarrow> failure + 'd response) \<Rightarrow> nat \<Rightarrow> api \<Rightarrow> (failure + 'd) \<times> api" where
  "resolveAlert server alertId st =
     (case client_put server (PutResolve alertId) st of
        (Inl e, st') \<Rightarrow> (Inl e, st')
      | (Inr r, st') \<Rightarrow> (Inr (data r), st'))"

text \<open>
  Modelled from the spec: the REST boundary of the operator actions, which is server code
  not among the sources: "both return the updated Alert or fail with InvalidTransitionError".
  The HTTP status of a rejection is a parameter.
\<close>

definition operator_action ::
  "nat \<Rightarrow> string \<Rightarrow> nat \<Rightarrow> machine \<Rightarrow> request \<Rightarrow> failure + alert response" where
  "operator_action code user now m req =
     (case (case req of
              PutAcknowledge i \<Rightarrow> acknowledge i user now m
            | PutResolve i \<Rightarrow> resolve i user now m) of
        Inl e \<Rightarrow> Inl \<lparr>fail_status = Some code, fail_cause = e\<rparr>
      | Inr (a, m') \<Rightarrow> Inr \<lparr>data = a\<rparr>)"

text \<open>
  Modelled from the spec: "a non-existent or already-Resolved Alert".
\<close>

definition absent_or_resolved :: "nat \<Rightarrow> machine \<Rightarrow> bool" where
  "absent_or_resolved i m =
     (case find (\<lambda>a. alert_id a = i) (alerts m) of
        None \<Rightarrow> True
      | Some a \<Rightarrow> alert_status a = Resolved)"

text \<open>
  Modelled from the spec: the end-to-end example of section 8, sensor S1 with readings
  5, 12, 22, 9, 9 classified against \<open>{max: 10, critical: 20}\<close>, window 3, before the
  third 9.
\<close>

definition example_machine :: machine where
  "example_machine =
     apply_transitions
       [Report ''S1'' ''site'' Normal ''t'' ''5'' 1,
        Report ''S1'' ''site'' Warning ''t'' ''12'' 2,
        Report ''S1'' ''site'' Critical ''t'' ''22'' 3,
        Report ''S1'' ''site'' Normal ''t'' ''9'' 4,
        Report ''S1'' ''site'' Normal ''t'' ''9'' 5]
       (new_machine 3 (\<lambda>sensor. SevHigh))"

text \<open>
  Modelled from the spec: the same example after the third 9.
\<close>

definition resolved_machine :: machine where
  "resolved_machine = apply_transition (Report ''S1'' ''site'' Normal ''t'' ''9'' 6) example_machine"

section \<open>The topic broker and its sessions\<close>

text \<open>
  Modelled from the spec: the TopicBroker and the ClientSession (sections 4.4 and 4.5) are
  server code of the repository that is not among the sources. The topics are \<^verbatim>\<open>alerts\<close>,
  \<^verbatim>\<open>live_data:{siteId}\<close> and \<^verbatim>\<open>predictions:{siteId}\<close>.
\<close>

datatype topic = TopicAlerts | TopicLiveData string | TopicPredictions string

text \<open>
  Modelled from the spec: the outbound events, LiveDataEvent and AlertEvent (section 6).
\<close>

datatype broker_event = LiveDataEvent string number status nat | AlertEvent alert

text \<open>
  Modelled from the spec: "LiveDataEvents are the droppable class", alert events are exempt from drop.
\<close>

fun droppable :: "broker_event \<Rightarrow> bool" where
  "droppable (LiveDataEvent sensor v st ts) = True"
| "droppable (AlertEvent a) = False"

text \<open>
  Modelled from the spec: a ClientSession: its subscription set, its bounded FIFO queue,
  the always-reserved high-priority slot of the alert events, the drop counter, the
  last-seen time and, while the connection is lost, the time at which it was lost.
\<close>

record session =
  subscriptions :: "topic list"
  queue :: "broker_event list"
  reserved :: "broker_event list"
  drop_count :: nat
  last_seen :: nat
  disconnected_at :: "nat option"

text \<open>
  Modelled from the spec: the TopicBroker: the sessions by id, the capacity of a queue, the
  grace period of a reconnect, and the ids it issues.
\<close>

record broker =
  sessions :: "string \<rightharpoonup> session"
  capacity :: nat
  grace_period :: nat
  next_session_id :: nat
  issue_id :: "nat \<Rightarrow> string"

text \<open>
  Modelled from the spec: a fresh session.
\<close>

definition new_session :: "nat \<Rightarrow> session" where
  "new_session now =
     \<lparr>subscriptions = [], queue = [], reserved = [], drop_count = 0, last_seen = now,
      disconnected_at = None\<rparr>"

text \<open>
  Modelled from the spec: a broker with no session.
\<close>

definition new_broker :: "nat \<Rightarrow> nat \<Rightarrow> (nat \<Rightarrow> string) \<Rightarrow> broker" where
  "new_broker cap grace issue =
     \<lparr>sessions = Map.empty, capacity = cap, grace_period = grace, next_session_id = 0,
      issue_id = issue\<rparr>"

text \<open>
  Modelled from the spec: "if a session's queue is full, the broker drops the oldest queued
  event (not the newest) and increments a drop counter"; an alert event goes to the
  reserved slot.
\<close>

definition enqueue :: "nat \<Rightarrow> broker_event \<Rightarrow> session \<Rightarrow> session" where
  "enqueue cap e s =
     (if droppable e then
        (if cap \<le> length (queue s)
         then s\<lparr>queue := tl (queue s) @ [e], drop_count := Suc (drop_count s)\<rparr>
         else s\<lparr>queue := queue s @ [e]\<rparr>)
      else s\<lparr>reserved := reserved s @ [e]\<rparr>)"

text \<open>
  Modelled from the spec: \<^verbatim>\<open>publish(topic, event)\<close>, "fire-and-forget into each matching
  session's queue"; with no subscriber it changes nothing.
\<close>

definition publish :: "topic \<Rightarrow> broker_event \<Rightarrow> broker \<Rightarrow> broker" where
  "publish t e b =
     b\<lparr>sessions := (\<lambda>sid.
          case sessions b sid of
            None \<Rightarrow> None
          | Some s \<Rightarrow> Some (if t \<in> set (subscriptions s) then enqueue (capacity b) e s else s))\<rparr>"

text \<open>
  Modelled from the spec: \<^verbatim>\<open>subscribe(sessionId, topic)\<close>.
\<close>

definition subscribe :: "string \<Rightarrow> topic \<Rightarrow> broker \<Rightarrow> broker" where
  "subscribe sid t b =
     (case sessions b sid of
        None \<Rightarrow> b
      | Some s \<Rightarrow>
          b\<lparr>sessions := (sessions b)(sid \<mapsto>
               s\<lparr>subscriptions := (if t \<in> set (subscriptions s) then subscriptions s
                                    else subscriptions s @ [t])\<rparr>)\<rparr>)"

text \<open>
  Modelled from the spec: \<^verbatim>\<open>unsubscribe(sessionId, topic)\<close>.
\<close>

definition unsubscribe :: "string \<Rightarrow> topic \<Rightarrow> broker \<Rightarrow> broker" where
  "unsubscribe sid t b =
     (case sessions b sid of
        None \<Rightarrow> b
      | Some s \<Rightarrow>
          b\<lparr>sessions := (sessions b)(sid \<mapsto>
               s\<lparr>subscriptions := removeAll t (subscriptions s)\<rparr>)\<rparr>)"

text \<open>
  Modelled from the spec: \<^verbatim>\<open>removeSession(sessionId)\<close>, idempotent.
\<close>

definition removeSession :: "string \<Rightarrow> broker \<Rightarrow> broker" where
  "removeSession sid b = b\<lparr>sessions := (sessions b)(sid := None)\<rparr>"

text \<open>
  Modelled from the spec: a transient loss of the connection of a session; the session stays.
\<close>

definition connection_lost :: "string \<Rightarrow> nat \<Rightarrow> broker \<Rightarrow> broker" where
  "connection_lost sid now b =
     (case sessions b sid of
        None \<Rightarrow> b
      | Some s \<Rightarrow> b\<lparr>sessions := (sessions b)(sid \<mapsto> s\<lparr>disconnected_at := Some now\<rparr>)\<rparr>)"

text \<open>
  Modelled from the spec: "otherwise a fresh session/id is issued".
\<close>

definition fresh_session :: "nat \<Rightarrow> broker \<Rightarrow> string \<times> broker" where
  "fresh_session now b =
     (issue_id b (next_session_id b),
      b\<lparr>sessions := (sessions b)(issue_id b (next_session_id b) \<mapsto> new_session now),
        next_session_id := Suc (next_session_id b)\<rparr>)"

text \<open>
  Modelled from the spec: a client connects, with or without a session id: "if a client
  reconnects with a previously issued session id within a grace period, the broker restores
  its subscription set rather than forcing manual re-subscription; otherwise a fresh
  session/id is issued".
\<close>

definition client_connects :: "string option \<Rightarrow> nat \<Rightarrow> broker \<Rightarrow> string \<times> broker" where
  "client_connects supplied now b =
     (case supplied of
        None \<Rightarrow> fresh_session now b
      | Some sid \<Rightarrow>
          (case sessions b sid of
             None \<Rightarrow> fresh_session now b
           | Some s \<Rightarrow>
               (case disconnected_at s of
                  None \<Rightarrow> (sid, b\<lparr>sessions := (sessions b)(sid \<mapsto> s\<lparr>last_seen := now\<rparr>)\<rparr>)
                | Some t \<Rightarrow>
                    if now \<le> t + grace_period b then
                      (sid, b\<lparr>sessions := (sessions b)(sid \<mapsto>
                                 s\<lparr>last_seen := now, disconnected_at := None\<rparr>)\<rparr>)
                    else fresh_session now (removeSession sid b))))"

text \<open>
  Modelled from the spec: a broker with queues of capacity 2 and a grace period of 30. One
  client connects at time 0 and is issued the id \<open>client_1\<close>, subscribes to the alerts,
  and loses its connection at time 100.
\<close>

definition example_broker :: broker where
  "example_broker =
     connection_lost ''client_1'' 100
       (subscribe ''client_1'' TopicAlerts
          (snd (client_connects None 0 (new_broker 2 30 (\<lambda>n. ''client_1'')))))"

section \<open>The alert list of the Header\<close>

text \<open>
  The alert listener of \<^verbatim>\<open>Header\<close>, the one bounded buffer of events in the sources:
  \<^verbatim>\<open>setAlerts(prev => [alertData, ...prev.slice(0, 9)]); // Keep last 10 alerts\<close>.
\<close>

definition on_alert :: "'a \<Rightarrow> 'a list \<Rightarrow> 'a list" where
  "on_alert alertData prev = alertData # take 9 prev"

section \<open>Properties of the classification\<close>

lemma ge_trans_lt: "ge v w \<Longrightarrow> lt c w \<Longrightarrow> ge v c"
  by (cases v; cases w; cases c) auto

text \<open>
  C1. For every value and thresholds, the level is critical exactly when
  \<open>v >= critical\<close>; it is warning exactly when that fails and \<open>v >= warning\<close>; it is
  normal exactly when both comparisons fail. The critical comparison is made first, so a
  value equal to a threshold falls into the stricter bucket.
\<close>

theorem getRiskLevel_buckets:
  "(level (getRiskLevel v t) = ''critical'' \<longleftrightarrow> ge v (critical t)) \<and>
   (level (getRiskLevel v t) = ''warning'' \<longleftrightarrow> \<not> ge v (critical t) \<and> ge v (warning t)) \<and>
   (level (getRiskLevel v t) = ''normal'' \<longleftrightarrow> \<not> ge v (critical t) \<and> \<not> ge v (warning t))"
  by (simp add: getRiskLevel_def)

text \<open>The boundaries of thresholds 10 and 20: 20 is critical, 10 is warning.\<close>

theorem getRiskLevel_buckets_witness:
  "level (getRiskLevel (Finite 20) \<lparr>warning = Finite 10, critical = Finite 20\<rparr>) = ''critical'' \<and>
   level (getRiskLevel (Finite 10) \<lparr>warning = Finite 10, critical = Finite 20\<rparr>) = ''warning''"
  using getRiskLevel_buckets [of "Finite 20" "\<lparr>warning = Finite 10, critical = Finite 20\<rparr>"]
    getRiskLevel_buckets [of "Finite 10" "\<lparr>warning = Finite 10, critical = Finite 20\<rparr>"]
  by simp

text \<open>
  C5, as stated, fails: with \<open>critical = 3 < warning = 10\<close> the call returns a status, it
  does not fail with InvalidThresholdError.
\<close>

theorem classify_invalid_thresholds_counterexample:
  "lt (critical \<lparr>warning = Finite 10, critical = Finite 3\<rparr>)
      (warning \<lparr>warning = Finite 10, critical = Finite 3\<rparr>) \<and>
   classify (Finite 5) \<lparr>warning = Finite 10, critical = Finite 3\<rparr>
     = Inr \<lparr>level = ''critical'', color = ''#f44336''\<rparr> \<and>
   classify (Finite 5) \<lparr>warning = Finite 10, critical = Finite 3\<rparr> \<noteq> Inl InvalidThresholdError"
  by (simp add: classify_def getRiskLevel_def)

text \<open>
  C5, amended. Classification never fails, whatever the thresholds: it returns the status
  the two comparisons give, the same for the same arguments. Where \<open>critical < warning\<close>
  the warning bucket is empty: the status is critical or normal.
\<close>

theorem classify_total:
  "(\<exists>r. classify v t = Inr r \<and> r = getRiskLevel v t) \<and>
   (lt (critical t) (warning t) \<longrightarrow>
      level (getRiskLevel v t) = (if ge v (critical t) then ''critical'' else ''normal''))"
  using ge_trans_lt [of v "warning t" "critical t"]
  by (auto simp add: classify_def getRiskLevel_def)

theorem classify_total_witness:
  "lt (Finite 3) (Finite 10) \<and>
   level (getRiskLevel (Finite 12) \<lparr>warning = Finite 10, critical = Finite 3\<rparr>) = ''critical'' \<and>
   level (getRiskLevel (Finite 2) \<lparr>warning = Finite 10, critical = Finite 3\<rparr>) = ''normal''"
  using classify_total [of "Finite 12" "\<lparr>warning = Finite 10, critical = Finite 3\<rparr>"]
    classify_total [of "Finite 2" "\<lparr>warning = Finite 10, critical = Finite 3\<rparr>"]
  by simp

section \<open>Properties of the WebSocketService\<close>


















text \<open>
  C6. The \<^verbatim>\<open>connect\<close> event of a socket resets the attempt counter to zero, so the next
  unexpected disconnect schedules the first attempt again, after the base delay, and
  counts it as attempt 1.
\<close>

theorem connect_resets_attempts:
  "i < length (sockets s) \<Longrightarrow>
   reconnectAttempts (on_connect i s) = 0 \<and>
   (j < length (sockets s) \<and> r \<noteq> ''io client disconnect'' \<longrightarrow>
      timers (on_disconnect j r (on_connect i s)) = timers s @ [1000] \<and>
      reconnectAttempts (on_disconnect j r (on_connect i s)) = 1)"
  by (simp add: on_connect_def on_disconnect_def Let_def handleReconnect_def
      maxReconnectAttempts_def reconnectDelay_def)


lemma attempts_three:
  "reconnectAttempts ((handleReconnect ^^ 3) (connect (new_service ''client_1''))) = 3 \<and>
   timers ((handleReconnect ^^ 3) (connect (new_service ''client_1''))) = [1000, 2000, 3000] \<and>
   length (sockets ((handleReconnect ^^ 3) (connect (new_service ''client_1'')))) = 1"
  by (simp add: numeral_3_eq_3 handleReconnect_def connect_def new_service_def
      maxReconnectAttempts_def reconnectDelay_def)

text \<open>
  After three attempts, a successful connect and a drop: the fourth timer has the base
  delay.
\<close>

theorem connect_resets_attempts_witness:
  "reconnectAttempts ((handleReconnect ^^ 3) (connect (new_service ''client_1''))) = 3 \<and>
   reconnectAttempts (on_connect 0 ((handleReconnect ^^ 3) (connect (new_service ''client_1'')))) = 0 \<and>
   timers (on_disconnect 0 ''transport close''
             (on_connect 0 ((handleReconnect ^^ 3) (connect (new_service ''client_1'')))))
     = [1000, 2000, 3000, 1000]"
  using connect_resets_attempts [of 0 "(handleReconnect ^^ 3) (connect (new_service ''client_1''))"
      0 "''transport close''"] attempts_three
  by simp

lemma client_disconnect_schedules_nothing:
  "timers (on_disconnect i ''io client disconnect'' s) = timers s \<and>
   reconnectAttempts (on_disconnect i ''io client disconnect'' s) = reconnectAttempts s"
  by (simp add: on_disconnect_def Let_def)

lemma reconnect_scheduled_only_by_drop:
  "length (timers s) < length (timers (step e s)) \<Longrightarrow>
   \<exists>i r. e = SocketDisconnects i r \<and> r \<noteq> ''io client disconnect''"
  by (cases e)
    (auto simp add: connect_def disconnect_def on_connect_def on_disconnect_def Let_def
      on_connect_error_def on_error_def
      handleReconnect_def timer_fires_def send_def subscribeToAlerts_def
      subscribeToLiveData_def subscribeToPredictions_def requestLiveData_def
      split: option.splits if_splits)

lemma disconnect_keeps_timers:
  "timers (disconnect s) = timers s \<and> socket (disconnect s) = None"
  using client_disconnect_schedules_nothing
  by (simp add: disconnect_def split: option.splits)

text \<open>
  C7. The handler of \<^verbatim>\<open>disconnect\<close> does not call \<^verbatim>\<open>handleReconnect\<close> for the reason
  \<^verbatim>\<open>'io client disconnect'\<close> (lemma \<open>client_disconnect_schedules_nothing\<close>), and only a
  \<^verbatim>\<open>disconnect\<close> event with another reason schedules a reconnect (lemma
  \<open>reconnect_scheduled_only_by_drop\<close>), but
  \<^verbatim>\<open>disconnect()\<close> leaves the pending timers in place (lemma \<open>disconnect_keeps_timers\<close>).
  So a reconnect is attempted after an explicit disconnect: the connection drops, the
  reconnect is scheduled, the client disconnects within the delay (the socket is null),
  the timer elapses and \<^verbatim>\<open>connect()\<close> creates a second socket.
\<close>

theorem reconnect_after_client_disconnect:
  "socket (run [CallConnect, SocketConnects 0, SocketDisconnects 0 ''transport close'',
                CallDisconnect] (new_service ''client_1'')) = None \<and>
   timers (run [CallConnect, SocketConnects 0, SocketDisconnects 0 ''transport close'',
                CallDisconnect] (new_service ''client_1'')) = [1000] \<and>
   socket (run [CallConnect, SocketConnects 0, SocketDisconnects 0 ''transport close'',
                CallDisconnect, TimerFires 0] (new_service ''client_1'')) = Some 1 \<and>
   length (sockets (run [CallConnect, SocketConnects 0, SocketDisconnects 0 ''transport close'',
                CallDisconnect, TimerFires 0] (new_service ''client_1''))) = 2"
  by (simp add: new_service_def connect_def on_connect_def on_disconnect_def Let_def
      handleReconnect_def maxReconnectAttempts_def reconnectDelay_def disconnect_def
      isConnected_def timer_fires_def)

lemma send_not_connected: "\<not> isConnected s \<Longrightarrow> send m s = s"
  by (simp add: send_def split: option.splits)

lemma emitted_step:
  "emitted (step e s) =
     (case requested e of
        None \<Rightarrow> emitted s
      | Some m \<Rightarrow> if isConnected s then emitted s @ [(the (socket s), m)] else emitted s)"
  by (cases e)
    (auto simp add: connect_def disconnect_def on_connect_def on_disconnect_def Let_def
      on_connect_error_def on_error_def
      handleReconnect_def timer_fires_def send_def subscribeToAlerts_def
      subscribeToLiveData_def subscribeToPredictions_def requestLiveData_def isConnected_def
      split: option.splits)

text \<open>
  C10. While the socket is not connected, \<^verbatim>\<open>subscribeToAlerts\<close>, \<^verbatim>\<open>subscribeToLiveData\<close> and
  \<^verbatim>\<open>subscribeToPredictions\<close> leave the whole state as it is: nothing is sent, nothing is
  recorded, and no error is raised (the call returns the state). Every later run is the
  run without the call, and nothing is replayed: \<^verbatim>\<open>connect()\<close>, the \<^verbatim>\<open>connect\<close> event and
  every event that is not itself a call of a sending method emit no message.
\<close>

theorem subscribe_not_connected_noop:
  "\<not> isConnected s \<Longrightarrow>
   subscribeToAlerts s = s \<and> subscribeToLiveData x s = s \<and> subscribeToPredictions x s = s \<and>
   run es (subscribeToAlerts s) = run es s \<and>
   run es (subscribeToLiveData x s) = run es s \<and>
   run es (subscribeToPredictions x s) = run es s \<and>
   emitted (connect s) = emitted s \<and>
   emitted (on_connect i s) = emitted s \<and>
   (requested e = None \<longrightarrow> emitted (step e s') = emitted s')"
  using emitted_step [of e s']
  by (simp add: send_not_connected subscribeToAlerts_def subscribeToLiveData_def
      subscribeToPredictions_def connect_def on_connect_def)

text \<open>
  A subscription requested before the connection is never sent; one requested after it
  is.
\<close>

theorem subscribe_not_connected_noop_witness:
  "\<not> isConnected (new_service ''client_1'') \<and>
   subscribeToAlerts (new_service ''client_1'') = new_service ''client_1'' \<and>
   emitted (run [CallSubscribeToAlerts, CallConnect, SocketConnects 0] (new_service ''client_1'')) = [] \<and>
   emitted (run [CallConnect, SocketConnects 0, CallSubscribeToAlerts] (new_service ''client_1''))
     = [(0, subscribe_alerts)]"
proof -
  have a: "\<not> isConnected (new_service ''client_1'')"
    by (simp add: isConnected_def new_service_def)
  have b: "emitted (run [CallConnect, SocketConnects 0] (new_service ''client_1'')) = []"
    by (simp add: new_service_def connect_def on_connect_def)
  have c: "emitted (run [CallConnect, SocketConnects 0, CallSubscribeToAlerts] (new_service ''client_1''))
     = [(0, subscribe_alerts)]"
    by (simp add: new_service_def connect_def on_connect_def subscribeToAlerts_def send_def
        isConnected_def)
  show ?thesis
    using subscribe_not_connected_noop [OF a, of None "[CallConnect, SocketConnects 0]" 0
        CallConnect "new_service ''client_1''"] a b c
    by simp
qed

section \<open>Properties of the alert state machine\<close>

lemma open_alerts_opens: "open_alerts sensor sev m = opens (sensor, sev) (alerts m)"
  by (simp add: open_alerts_def opens_def)

lemma opens_map_le:
  assumes "\<And>a. is_open (f a) \<Longrightarrow> is_open a"
    and "\<And>a. sensor_id (f a) = sensor_id a" and "\<And>a. severity (f a) = severity a"
  shows "length (opens k (map f as)) \<le> length (opens k as)"
  using assms by (induction as) (auto simp add: opens_def)

lemma opens_update_first_le:
  assumes "\<And>a. is_open (f a) \<Longrightarrow> is_open a"
    and "\<And>a. sensor_id (f a) = sensor_id a" and "\<And>a. severity (f a) = severity a"
  shows "length (opens k (update_first P f as)) \<le> length (opens k as)"
  using assms by (induction as) (auto simp add: opens_def)

lemma opens_update_first_other:
  assumes "\<And>a. P a \<Longrightarrow> \<not> (is_open (f a) \<and> sensor_id (f a) = fst k \<and> severity (f a) = snd k)"
  shows "length (opens k (update_first P f as)) \<le> length (opens k as)"
  using assms by (induction as) (auto simp add: opens_def)

lemma opens_update_first_Suc:
  "length (opens k (update_first P f as)) \<le> Suc (length (opens k as))"
  by (induction as) (auto simp add: opens_def)

lemma create_alert_inv:
  assumes "at_most_one_open m" and "create_alert sensor site sev ttl msg now m = Inr m'"
  shows "at_most_one_open m'"
  using assms
  by (auto simp add: at_most_one_open_def create_alert_def open_alerts_def split: if_splits)

lemma report_breach_inv:
  assumes "at_most_one_open m"
  shows "at_most_one_open (report_breach sensor site sev ttl msg now m)"
proof -
  let ?P = "\<lambda>a. is_open a \<and> sensor_id a = sensor \<and> severity a = sev"
  let ?Q = "\<lambda>a. is_open a \<and> sensor_id a = sensor \<and> rank (severity a) < rank sev"
  let ?g = "\<lambda>a. (touch msg now a)\<lparr>severity := sev\<rparr>"
  show ?thesis
  proof (cases "open_alerts sensor sev m \<noteq> []")
    case True
    have "length (opens k (update_first ?P (touch msg now) (alerts m))) \<le> length (opens k (alerts m))" for k
      by (rule opens_update_first_le) (simp_all add: touch_def is_open_def)
    with assms True show ?thesis
      by (fastforce simp add: at_most_one_open_def report_breach_def open_alerts_opens
          intro: order_trans)
  next
    case none: False
    show ?thesis
    proof (cases "list_ex ?Q (alerts m)")
      case True
      have "length (opens k (update_first ?Q ?g (alerts m))) \<le> 1" for k
      proof (cases "k = (sensor, sev)")
        case True
        with none have "opens k (alerts m) = []"
          by (simp add: open_alerts_opens)
        with opens_update_first_Suc [of k ?Q ?g "alerts m"] show ?thesis by simp
      next
        case False
        have "length (opens k (update_first ?Q ?g (alerts m))) \<le> length (opens k (alerts m))"
          by (rule opens_update_first_other) (use False in \<open>auto simp add: touch_def\<close>)
        moreover have "length (opens k (alerts m)) \<le> 1"
          using assms by (cases k) (simp add: at_most_one_open_def open_alerts_opens)
        ultimately show ?thesis by simp
      qed
      with none True show ?thesis
        by (simp add: at_most_one_open_def report_breach_def open_alerts_opens)
    next
      case False
      with none assms show ?thesis
        using create_alert_inv [of m sensor site sev ttl msg now]
        by (auto simp add: report_breach_def split: sum.splits)
    qed
  qed
qed

lemma streak_inv:
  "at_most_one_open (m\<lparr>normal_streak := x\<rparr>) = at_most_one_open m"
  by (simp add: at_most_one_open_def open_alerts_def)

lemma resolve_sensor_inv:
  assumes "at_most_one_open m"
  shows "at_most_one_open (m\<lparr>alerts := resolve_sensor sensor now (alerts m), normal_streak := x\<rparr>)"
proof -
  have "length (opens k (resolve_sensor sensor now (alerts m))) \<le> length (opens k (alerts m))" for k
    unfolding resolve_sensor_def by (rule opens_map_le) (auto simp add: is_open_def split: if_splits)
  with assms show ?thesis
    by (fastforce simp add: at_most_one_open_def open_alerts_opens intro: order_trans)
qed

lemma report_inv:
  assumes "at_most_one_open m"
  shows "at_most_one_open (report sensor site st ttl msg now m)"
  using assms report_breach_inv resolve_sensor_inv
  by (simp add: report_def streak_inv Let_def split: option.splits)

lemma opens_update_found:
  assumes "find P as = Some b" and "is_open b"
    and "sensor_id (f b) = sensor_id b" and "severity (f b) = severity b"
  shows "length (opens k (update_first P f as)) \<le> length (opens k as)"
  using assms by (induction as) (auto simp add: opens_def split: if_splits)

lemma set_alert_inv:
  assumes "at_most_one_open m" and "find (\<lambda>a. alert_id a = i) (alerts m) = Some b"
    and "is_open b" and "sensor_id (f b) = sensor_id b" and "severity (f b) = severity b"
  shows "at_most_one_open (set_alert i f m)"
proof -
  have "length (opens k (update_first (\<lambda>a. alert_id a = i) f (alerts m)))
      \<le> length (opens k (alerts m))" for k
    using assms(2-5) by (rule opens_update_found)
  with assms(1) show ?thesis
    by (fastforce simp add: at_most_one_open_def open_alerts_opens set_alert_def intro: order_trans)
qed

lemma acknowledge_inv:
  assumes "at_most_one_open m" and "acknowledge i user now m = Inr (a, m')"
  shows "at_most_one_open m'"
  using assms set_alert_inv [of m i _ "\<lambda>a. a\<lparr>alert_status := Acknowledged,
      acknowledged_by := Some user, acknowledged_at := Some now\<rparr>"]
  by (auto simp add: acknowledge_def Let_def is_open_def split: option.splits if_splits)

lemma resolve_inv:
  assumes "at_most_one_open m" and "resolve i user now m = Inr (a, m')"
  shows "at_most_one_open m'"
  using assms set_alert_inv [of m i _ "\<lambda>a. a\<lparr>alert_status := Resolved, resolved_at := Some now\<rparr>"]
  by (auto simp add: resolve_def Let_def is_open_def split: option.splits if_splits)

lemma apply_transition_inv:
  assumes "at_most_one_open m"
  shows "at_most_one_open (apply_transition t m)"
proof (cases t)
  case (Report sensor site st ttl msg now)
  with assms show ?thesis by (simp add: report_inv)
next
  case (Create sensor site sev ttl msg now)
  with assms create_alert_inv [of m sensor site sev ttl msg now] show ?thesis
    by (simp split: sum.splits)
next
  case (Acknowledge i user now)
  with assms acknowledge_inv [of m i user now] show ?thesis
    by (auto split: sum.splits)
next
  case (Resolve i user now)
  with assms resolve_inv [of m i user now] show ?thesis
    by (auto split: sum.splits)
qed

lemma apply_transitions_inv:
  "at_most_one_open m \<Longrightarrow> at_most_one_open (apply_transitions ts m)"
  by (induction ts arbitrary: m) (simp_all add: apply_transition_inv)

lemma new_machine_inv: "at_most_one_open (new_machine window policy)"
  by (simp add: at_most_one_open_def new_machine_def open_alerts_def)

text \<open>
  The end-to-end example of the specification: no alert at 5, an alert of severity high
  at 12, the same alert escalated to critical at 22, still open after two readings of 9,
  resolved at the third.
\<close>

lemma example_machine_alerts:
  "alerts example_machine =
     [\<lparr>alert_id = 0, sensor_id = ''S1'', site_id = ''site'', severity = SevCritical,
       title = ''t'', message = ''22'', created_at = 2, timestamp = 3,
       alert_status = Active, acknowledged_by = None, acknowledged_at = None,
       resolved_at = None\<rparr>]"
  by (simp add: example_machine_def new_machine_def report_def report_breach_def
      create_alert_def open_alerts_def is_open_def touch_def resolve_sensor_def Let_def)

lemma resolved_machine_alerts:
  "alerts resolved_machine =
     [\<lparr>alert_id = 0, sensor_id = ''S1'', site_id = ''site'', severity = SevCritical,
       title = ''t'', message = ''22'', created_at = 2, timestamp = 3,
       alert_status = Resolved, acknowledged_by = None, acknowledged_at = None,
       resolved_at = Some 6\<rparr>]"
  by (simp add: resolved_machine_def example_machine_alerts report_def is_open_def
      resolve_sensor_def Let_def)
    (simp add: example_machine_def new_machine_def report_def report_breach_def
      create_alert_def open_alerts_def is_open_def touch_def resolve_sensor_def Let_def)

text \<open>
  C3. After any sequence of transitions (reports, creations, acknowledgements,
  resolutions, in the order in which they take effect) from the empty machine, every
  (sensor, severity) pair has at most one non-Resolved alert; every single transition keeps
  this; and the creation of a second alert for a pair that has an open one is rejected with
  an error, the machine unchanged.
\<close>

theorem at_most_one_open_alert:
  "length (open_alerts sensor sev (apply_transitions ts (new_machine window policy))) \<le> 1 \<and>
   (at_most_one_open m \<longrightarrow> at_most_one_open (apply_transition t m)) \<and>
   (open_alerts sensor sev m \<noteq> [] \<longrightarrow>
      create_alert sensor site sev ttl msg now m = Inl DuplicateAlertError)"
proof -
  have "at_most_one_open (apply_transitions ts (new_machine window policy))"
    using new_machine_inv by (rule apply_transitions_inv)
  then have a: "length (open_alerts sensor sev (apply_transitions ts (new_machine window policy))) \<le> 1"
    unfolding at_most_one_open_def by blast
  have b: "at_most_one_open m \<longrightarrow> at_most_one_open (apply_transition t m)"
    by (simp add: apply_transition_inv)
  have c: "open_alerts sensor sev m \<noteq> [] \<longrightarrow>
      create_alert sensor site sev ttl msg now m = Inl DuplicateAlertError"
    by (simp add: create_alert_def)
  from a b c show ?thesis by blast
qed

text \<open>
  In the example the pair (S1, critical) has its one open alert, and a second creation
  is rejected.
\<close>

theorem at_most_one_open_alert_witness:
  "at_most_one_open example_machine \<and>
   at_most_one_open
     (apply_transition (Create ''S1'' ''site'' SevCritical ''t'' ''again'' 6) example_machine) \<and>
   open_alerts ''S1'' SevCritical example_machine \<noteq> [] \<and>
   create_alert ''S1'' ''site'' SevCritical ''t'' ''again'' 6 example_machine
     = Inl DuplicateAlertError \<and>
   length (open_alerts ''S1'' SevCritical example_machine) = 1"
proof -
  have a: "at_most_one_open example_machine"
    unfolding example_machine_def using new_machine_inv by (rule apply_transitions_inv)
  have b: "length (open_alerts ''S1'' SevCritical example_machine) = 1"
    by (simp add: open_alerts_def example_machine_alerts is_open_def)
  then have c: "open_alerts ''S1'' SevCritical example_machine \<noteq> []"
    by auto
  show ?thesis
    using a b c
      at_most_one_open_alert [where m = example_machine and sensor = "''S1''"
        and sev = SevCritical and site = "''site''" and ttl = "''t''" and msg = "''again''"
        and now = 6 and t = "Create ''S1'' ''site'' SevCritical ''t'' ''again'' 6"]
    by simp
qed

section \<open>Properties of the operator actions\<close>

lemma server_rejects:
  "absent_or_resolved i m \<Longrightarrow>
   acknowledge i user now m = Inl InvalidTransitionError \<and>
   resolve i user now m = Inl InvalidTransitionError"
  by (auto simp add: absent_or_resolved_def acknowledge_def resolve_def split: option.splits)

lemma acknowledgeAlert_returns_failure:
  "server (PutAcknowledge i) = Inl e \<Longrightarrow>
   fst (acknowledgeAlert server i st) = Inl e \<and>
   requests (snd (acknowledgeAlert server i st)) = requests st @ [PutAcknowledge i]"
  by (simp add: acknowledgeAlert_def client_put_def response_interceptor_def)

lemma resolveAlert_returns_failure:
  "server (PutResolve i) = Inl e \<Longrightarrow>
   fst (resolveAlert server i st) = Inl e \<and>
   requests (snd (resolveAlert server i st)) = requests st @ [PutResolve i]"
  by (simp add: resolveAlert_def client_put_def response_interceptor_def)

text \<open>
  C9. For an alert id that does not exist or whose alert is Resolved, \<^verbatim>\<open>acknowledge\<close> and
  \<^verbatim>\<open>resolve\<close> fail with InvalidTransitionError. The client's \<^verbatim>\<open>acknowledgeAlert\<close> and
  \<^verbatim>\<open>resolveAlert\<close> hand that failure to their caller, having sent one request (no retry);
  and whatever failure a server answers, the two methods return it.
\<close>

theorem invalid_transition_surfaces:
  "absent_or_resolved i m \<Longrightarrow>
   acknowledge i user now m = Inl InvalidTransitionError \<and>
   resolve i user now m = Inl InvalidTransitionError \<and>
   fst (acknowledgeAlert (operator_action code user now m) i st)
     = Inl \<lparr>fail_status = Some code, fail_cause = InvalidTransitionError\<rparr> \<and>
   fst (resolveAlert (operator_action code user now m) i st)
     = Inl \<lparr>fail_status = Some code, fail_cause = InvalidTransitionError\<rparr> \<and>
   requests (snd (acknowledgeAlert (operator_action code user now m) i st))
     = requests st @ [PutAcknowledge i] \<and>
   requests (snd (resolveAlert (operator_action code user now m) i st))
     = requests st @ [PutResolve i] \<and>
   (server (PutAcknowledge i) = Inl e \<longrightarrow> fst (acknowledgeAlert server i st) = Inl e) \<and>
   (server (PutResolve i) = Inl e \<longrightarrow> fst (resolveAlert server i st) = Inl e)"
  using server_rejects [of i m user now]
    acknowledgeAlert_returns_failure [of "operator_action code user now m" i
      "\<lparr>fail_status = Some code, fail_cause = InvalidTransitionError\<rparr>" st]
    resolveAlert_returns_failure [of "operator_action code user now m" i
      "\<lparr>fail_status = Some code, fail_cause = InvalidTransitionError\<rparr>" st]
    acknowledgeAlert_returns_failure [of server i e st]
    resolveAlert_returns_failure [of server i e st]
  by (simp add: operator_action_def)

text \<open>
  In the resolved example, alert 0 is Resolved and alert 7 does not exist.
\<close>

theorem invalid_transition_surfaces_witness:
  "absent_or_resolved 0 resolved_machine \<and> absent_or_resolved 7 resolved_machine \<and>
   acknowledge 0 ''operator'' 9 resolved_machine = Inl InvalidTransitionError \<and>
   resolve 7 ''operator'' 9 resolved_machine = Inl InvalidTransitionError \<and>
   fst (acknowledgeAlert (operator_action 409 ''operator'' 9 resolved_machine) 0
          \<lparr>access_token = Some ''token'', location = ''/alerts'', requests = []\<rparr>)
     = Inl \<lparr>fail_status = Some 409, fail_cause = InvalidTransitionError\<rparr> \<and>
   requests (snd (resolveAlert (operator_action 409 ''operator'' 9 resolved_machine) 7
          \<lparr>access_token = Some ''token'', location = ''/alerts'', requests = []\<rparr>))
     = [PutResolve 7]"
proof -
  have a: "absent_or_resolved 0 resolved_machine"
    by (simp add: absent_or_resolved_def resolved_machine_alerts)
  have b: "absent_or_resolved 7 resolved_machine"
    by (simp add: absent_or_resolved_def resolved_machine_alerts)
  show ?thesis
    using a b
      invalid_transition_surfaces [OF a, where user = "''operator''" and now = 9 and code = 409
        and st = "\<lparr>access_token = Some ''token'', location = ''/alerts'', requests = []\<rparr>"
        and server = "operator_action 409 ''operator'' 9 resolved_machine"
        and e = "\<lparr>fail_status = Some 409, fail_cause = InvalidTransitionError\<rparr>"]
      invalid_transition_surfaces [OF b, where user = "''operator''" and now = 9 and code = 409
        and st = "\<lparr>access_token = Some ''token'', location = ''/alerts'', requests = []\<rparr>"
        and server = "operator_action 409 ''operator'' 9 resolved_machine"
        and e = "\<lparr>fail_status = Some 409, fail_cause = InvalidTransitionError\<rparr>"]
    by simp
qed

section \<open>Properties of the topic broker\<close>

text \<open>
  The alert list of the Header is not the broker's queue: it keeps the ten newest alerts
  and drops the oldest alert when an eleventh arrives.
\<close>

lemma on_alert_keeps_ten_newest:
  "length (on_alert a prev) \<le> 10 \<and>
   (length prev = 10 \<longrightarrow> on_alert a prev = a # butlast prev)"
  by (simp add: on_alert_def butlast_conv_take)

text \<open>
  C4. A publish into a full queue returns with the session updated (it waits for
  nothing): a LiveDataEvent evicts the oldest queued event, the head of the queue, is
  itself queued last, and the drop is counted; an alert event goes to the reserved slot,
  from which nothing is ever removed, and evicts nothing. The queue holds droppable events
  only, so no alert event is ever evicted.
\<close>

theorem full_queue_drops_oldest:
  "cap \<le> length (queue s) \<Longrightarrow> queue s \<noteq> [] \<Longrightarrow> list_all droppable (queue s) \<Longrightarrow>
   (droppable e \<longrightarrow>
      queue s = hd (queue s) # tl (queue s) \<and>
      queue (enqueue cap e s) = tl (queue s) @ [e] \<and>
      drop_count (enqueue cap e s) = Suc (drop_count s)) \<and>
   reserved (enqueue cap e s) = reserved s @ (if droppable e then [] else [e]) \<and>
   (\<not> droppable e \<longrightarrow> queue (enqueue cap e s) = queue s \<and> drop_count (enqueue cap e s) = drop_count s) \<and>
   list_all droppable (queue (enqueue cap e s)) \<and>
   (sessions b sid = Some s \<and> capacity b = cap \<and> t \<in> set (subscriptions s) \<longrightarrow>
      sessions (publish t e b) sid = Some (enqueue cap e s))"
  by (cases "queue s") (auto simp add: enqueue_def publish_def)

text \<open>
  A queue of capacity 2 holding the readings 5 and 6: the reading 7 evicts the 5; an
  alert event evicts nothing.
\<close>

theorem full_queue_drops_oldest_witness:
  "queue (enqueue 2 (LiveDataEvent ''S1'' (Finite 7) Normal 3)
       \<lparr>subscriptions = [TopicLiveData ''site''],
        queue = [LiveDataEvent ''S1'' (Finite 5) Normal 1, LiveDataEvent ''S1'' (Finite 6) Normal 2],
        reserved = [], drop_count = 0, last_seen = 0, disconnected_at = None\<rparr>)
     = [LiveDataEvent ''S1'' (Finite 6) Normal 2, LiveDataEvent ''S1'' (Finite 7) Normal 3] \<and>
   drop_count (enqueue 2 (LiveDataEvent ''S1'' (Finite 7) Normal 3)
       \<lparr>subscriptions = [TopicLiveData ''site''],
        queue = [LiveDataEvent ''S1'' (Finite 5) Normal 1, LiveDataEvent ''S1'' (Finite 6) Normal 2],
        reserved = [], drop_count = 0, last_seen = 0, disconnected_at = None\<rparr>) = 1 \<and>
   reserved (enqueue 2 (AlertEvent (hd (alerts example_machine)))
       \<lparr>subscriptions = [TopicLiveData ''site''],
        queue = [LiveDataEvent ''S1'' (Finite 5) Normal 1, LiveDataEvent ''S1'' (Finite 6) Normal 2],
        reserved = [], drop_count = 0, last_seen = 0, disconnected_at = None\<rparr>) = [AlertEvent (hd (alerts example_machine))] \<and>
   queue (enqueue 2 (AlertEvent (hd (alerts example_machine)))
       \<lparr>subscriptions = [TopicLiveData ''site''],
        queue = [LiveDataEvent ''S1'' (Finite 5) Normal 1, LiveDataEvent ''S1'' (Finite 6) Normal 2],
        reserved = [], drop_count = 0, last_seen = 0, disconnected_at = None\<rparr>)
     = [LiveDataEvent ''S1'' (Finite 5) Normal 1, LiveDataEvent ''S1'' (Finite 6) Normal 2]"
  using full_queue_drops_oldest [of 2
       "\<lparr>subscriptions = [TopicLiveData ''site''],
        queue = [LiveDataEvent ''S1'' (Finite 5) Normal 1, LiveDataEvent ''S1'' (Finite 6) Normal 2],
        reserved = [], drop_count = 0, last_seen = 0, disconnected_at = None\<rparr>"
       "LiveDataEvent ''S1'' (Finite 7) Normal 3"]
    full_queue_drops_oldest [of 2
       "\<lparr>subscriptions = [TopicLiveData ''site''],
        queue = [LiveDataEvent ''S1'' (Finite 5) Normal 1, LiveDataEvent ''S1'' (Finite 6) Normal 2],
        reserved = [], drop_count = 0, last_seen = 0, disconnected_at = None\<rparr>"
       "AlertEvent (hd (alerts example_machine))"]
  by simp

section \<open>Properties of the reconnect with a session id\<close>

lemma clientId_step: "clientId (step e s) = clientId s"
  by (cases e)
    (simp_all add: connect_def disconnect_def on_connect_def on_disconnect_def Let_def
      on_connect_error_def on_error_def
      handleReconnect_def timer_fires_def send_def subscribeToAlerts_def
      subscribeToLiveData_def subscribeToPredictions_def requestLiveData_def
      split: option.splits)

lemma list_all_update_nth:
  "list_all P xs \<Longrightarrow> (\<And>x. P x \<Longrightarrow> P (f x)) \<Longrightarrow> list_all P (xs[i := f (xs ! i)])"
  by (induction xs arbitrary: i) (auto split: nat.splits)

lemma same_client_flag:
  "same_client s \<Longrightarrow>
   same_client (s\<lparr>sockets := (sockets s)[i := (sockets s ! i)\<lparr>sock_connected := c\<rparr>]\<rparr>)"
  using list_all_update_nth [of "\<lambda>k. sock_clientId k = clientId s" "sockets s"
      "\<lambda>k. k\<lparr>sock_connected := c\<rparr>" i]
  by (simp add: same_client_def)

lemma same_client_connect: "same_client s \<Longrightarrow> same_client (connect s)"
  by (simp add: same_client_def connect_def)

lemma same_client_on_connect: "same_client s \<Longrightarrow> same_client (on_connect i s)"
  using same_client_flag [of s i True]
  by (simp add: on_connect_def same_client_def)

lemma same_client_on_disconnect: "same_client s \<Longrightarrow> same_client (on_disconnect i r s)"
  using same_client_flag [of s i False]
  by (simp add: on_disconnect_def handleReconnect_def Let_def same_client_def)

lemma same_client_disconnect: "same_client s \<Longrightarrow> same_client (disconnect s)"
  using same_client_on_disconnect [of s _ "''io client disconnect''"]
  by (auto simp add: disconnect_def same_client_def split: option.splits)

lemma same_client_timer: "same_client s \<Longrightarrow> same_client (timer_fires k s)"
  using same_client_connect [of "s\<lparr>timers := take k (timers s) @ drop (Suc k) (timers s)\<rparr>"]
  by (simp add: timer_fires_def same_client_def)

lemma same_client_send: "same_client s \<Longrightarrow> same_client (send m s)"
  by (simp add: send_def same_client_def split: option.splits)

lemma same_client_log: "same_client (s\<lparr>console := c\<rparr>) = same_client s"
  by (simp add: same_client_def)

lemma same_client_step: "same_client s \<Longrightarrow> same_client (step e s)"
  by (cases e)
    (simp_all add: same_client_connect same_client_log on_connect_error_def on_error_def same_client_on_connect same_client_on_disconnect
      same_client_disconnect same_client_timer same_client_send subscribeToAlerts_def
      subscribeToLiveData_def subscribeToPredictions_def requestLiveData_def)

lemma same_client_run: "same_client s \<Longrightarrow> same_client (run es s) \<and> clientId (run es s) = clientId s"
  by (induction es arbitrary: s) (simp_all add: same_client_step clientId_step)

lemma sockets_of_run:
  "i < length (sockets (run es (new_service cid))) \<Longrightarrow>
   sock_clientId (sockets (run es (new_service cid)) ! i) = cid"
  using same_client_run [of "new_service cid" es]
  by (simp add: same_client_def list_all_length new_service_def)

lemma timer_reconnect_silent:
  "emitted (timer_fires k s) = emitted s"
  by (simp add: timer_fires_def connect_def)

text \<open>
  C8. The client side, from the sources: every socket the service ever creates carries
  the one client id of the service, and the reconnect that a timer starts sends no
  subscribe message. The broker side: when that id names a session whose connection was
  lost no longer ago than the grace period, the connect returns the same id and the
  session with its subscription set as it was; an event published afterwards on one of
  these topics is enqueued for the session, with no subscribe in between.
\<close>

theorem reconnect_restores_subscriptions:
  "sessions b cid = Some s \<Longrightarrow> disconnected_at s = Some t \<Longrightarrow> now \<le> t + grace_period b \<Longrightarrow>
   j < length (sockets (run es (new_service cid))) \<Longrightarrow>
   sock_clientId (sockets (run es (new_service cid)) ! j) = cid \<and>
   emitted (timer_fires k c) = emitted c \<and>
   fst (client_connects (Some cid) now b) = cid \<and>
   sessions (snd (client_connects (Some cid) now b)) cid
     = Some (s\<lparr>last_seen := now, disconnected_at := None\<rparr>) \<and>
   subscriptions (s\<lparr>last_seen := now, disconnected_at := None\<rparr>) = subscriptions s \<and>
   (topic \<in> set (subscriptions s) \<longrightarrow>
      (\<exists>s'. sessions (publish topic e (snd (client_connects (Some cid) now b))) cid = Some s' \<and>
            e \<in> set (reserved s' @ queue s')))"
  using sockets_of_run [of j es cid] timer_reconnect_silent [of k c]
  by (auto simp add: client_connects_def publish_def enqueue_def)

lemma example_broker_session:
  "sessions example_broker ''client_1''
     = Some \<lparr>subscriptions = [TopicAlerts], queue = [], reserved = [], drop_count = 0,
             last_seen = 0, disconnected_at = Some 100\<rparr> \<and>
   grace_period example_broker = 30"
  by (simp add: example_broker_def connection_lost_def subscribe_def client_connects_def
      fresh_session_def new_broker_def new_session_def)

text \<open>
  The client of the example reconnects at time 120, within the grace period, on the
  second socket of its service: its subscription to the alerts is back, and an alert
  published afterwards reaches its session.
\<close>

theorem reconnect_restores_subscriptions_witness:
  "sock_clientId (sockets (run [CallConnect, SocketConnects 0,
       SocketDisconnects 0 ''transport close'', TimerFires 0] (new_service ''client_1'')) ! 1)
     = ''client_1'' \<and>
   fst (client_connects (Some ''client_1'') 120 example_broker) = ''client_1'' \<and>
   sessions (snd (client_connects (Some ''client_1'') 120 example_broker)) ''client_1''
     = Some \<lparr>subscriptions = [TopicAlerts], queue = [], reserved = [], drop_count = 0,
             last_seen = 120, disconnected_at = None\<rparr> \<and>
   (\<exists>s'. sessions (publish TopicAlerts (AlertEvent (hd (alerts example_machine)))
             (snd (client_connects (Some ''client_1'') 120 example_broker))) ''client_1'' = Some s' \<and>
         AlertEvent (hd (alerts example_machine)) \<in> set (reserved s' @ queue s'))"
proof -
  have a: "(1::nat) < length (sockets (run [CallConnect, SocketConnects 0,
       SocketDisconnects 0 ''transport close'', TimerFires 0] (new_service ''client_1'')))"
    by (simp add: new_service_def connect_def on_connect_def on_disconnect_def Let_def
        handleReconnect_def maxReconnectAttempts_def timer_fires_def)
  have b: "sessions example_broker ''client_1''
     = Some \<lparr>subscriptions = [TopicAlerts], queue = [], reserved = [], drop_count = 0,
             last_seen = 0, disconnected_at = Some 100\<rparr>"
    by (simp add: example_broker_session)
  have c: "disconnected_at \<lparr>subscriptions = [TopicAlerts], queue = [], reserved = [],
      drop_count = 0, last_seen = 0, disconnected_at = Some 100\<rparr> = Some 100"
    by simp
  have d: "(120::nat) \<le> 100 + grace_period example_broker"
    by (simp add: example_broker_session)
  show ?thesis
    using reconnect_restores_subscriptions [OF b c d a, where topic = TopicAlerts
        and e = "AlertEvent (hd (alerts example_machine))"]
    by simp
qed

end
